theory Spec2Isabelle
  imports Complex_Main
begin

section \<open>Values, exceptions and data frames\<close>

text \<open>
  The program is the class \<open>AIEthicsFramework\<close> of \<open>PYAIGuardian.py\<close>. Its numeric
  methods work on a pandas data frame, a model object with a \<open>predict\<close> method, and numpy
  arrays of predictions. Floating-point numbers are modelled by exact rationals together
  with the \<open>nan\<close> that \<open>np.mean\<close> returns on an empty array. Rounding is not modelled,
  and neither is overflow: a sum of floats beyond the largest double is \<open>inf\<close> in the
  program and a finite rational here. The result on a single group, which excludes
  \<open>nan\<close>, is therefore stated for predictions between 0 and 1, whose sums stay far below
  that limit.
\<close>

datatype pyfloat = Fin rat | NaN

text \<open>
  Python exceptions. The first five are the ones the interpreter, numpy and pandas raise
  in the code paths below; \<open>Other\<close> stands for any other exception class, named by its
  class name, such as one raised inside a model's \<open>predict\<close>.
\<close>

datatype py_exception =
    KeyError string
  | ValueError
  | TypeError
  | IndexError
  | AttributeError string
  | Other string

definition SchemaError :: py_exception where
  "SchemaError = Other ''SchemaError''"

text \<open>
  A cell of a data frame holds a number or a string. Missing values are not modelled:
  every cell is present.
\<close>

datatype cell = Num rat | Str string

text \<open>
  A data frame: its number of rows (the length of its index) and its columns in order,
  each a name with the values of that field for every record.
\<close>

record dataframe =
  n_rows :: nat
  columns :: "(string \<times> cell list) list"


text \<open>The model is opaque: all the code does with it is call \<open>model.predict\<close>.\<close>

datatype model = Model (predict: "dataframe \<Rightarrow> py_exception + rat list")

section \<open>Library operations used by the code\<close>

definition then_exn :: "'e + 'a \<Rightarrow> ('a \<Rightarrow> 'e + 'b) \<Rightarrow> 'e + 'b" where
  "then_exn m f = (case m of Inl e \<Rightarrow> Inl e | Inr x \<Rightarrow> f x)"

text \<open>
  \<open>np.mean\<close>: the arithmetic mean, \<open>nan\<close> on an empty array. The sum is exact: the
  \<open>inf\<close> that the program gets when the sum of very large values overflows is outside
  this model.
\<close>

definition np_mean :: "rat list \<Rightarrow> pyfloat" where
  "np_mean xs = (if xs = [] then NaN else Fin (sum_list xs / of_nat (length xs)))"

text \<open>Float arithmetic: any operation with a \<open>nan\<close> operand is \<open>nan\<close>.\<close>

fun fsub :: "pyfloat \<Rightarrow> pyfloat \<Rightarrow> pyfloat" where
  "fsub (Fin a) (Fin b) = Fin (a - b)"
| "fsub _ _ = NaN"

fun fadd :: "pyfloat \<Rightarrow> pyfloat \<Rightarrow> pyfloat" where
  "fadd (Fin a) (Fin b) = Fin (a + b)"
| "fadd _ _ = NaN"

text \<open>Division by a non-zero integer count, as in \<open>sum(checklist) / len(checklist)\<close>.\<close>

fun fdiv_count :: "pyfloat \<Rightarrow> nat \<Rightarrow> pyfloat" where
  "fdiv_count (Fin a) n = Fin (a / of_nat n)"
| "fdiv_count NaN n = NaN"

text \<open>Comparisons of floats: every comparison with \<open>nan\<close> is false.\<close>

fun py_gt :: "pyfloat \<Rightarrow> pyfloat \<Rightarrow> bool" where
  "py_gt (Fin a) (Fin b) = (b < a)"
| "py_gt _ _ = False"

fun py_lt :: "pyfloat \<Rightarrow> pyfloat \<Rightarrow> bool" where
  "py_lt (Fin a) (Fin b) = (a < b)"
| "py_lt _ _ = False"

text \<open>
  The builtins \<open>max\<close> and \<open>min\<close> over an iterable: \<open>ValueError\<close> when it is empty;
  otherwise the first item is kept until a later one compares strictly greater (smaller).
\<close>

fun py_max :: "pyfloat list \<Rightarrow> py_exception + pyfloat" where
  "py_max [] = Inl ValueError"
| "py_max (x # xs) = Inr (fold (\<lambda>y m. if py_gt y m then y else m) xs x)"

fun py_min :: "pyfloat list \<Rightarrow> py_exception + pyfloat" where
  "py_min [] = Inl ValueError"
| "py_min (x # xs) = Inr (fold (\<lambda>y m. if py_lt y m then y else m) xs x)"

text \<open>\<open>data[attribute]\<close>: the column of that name, \<open>KeyError\<close> when there is none.\<close>

definition getitem :: "dataframe \<Rightarrow> string \<Rightarrow> py_exception + cell list" where
  "getitem d a = (case map_of (columns d) a of None \<Rightarrow> Inl (KeyError a) | Some col \<Rightarrow> Inr col)"

text \<open>\<open>Series.unique()\<close>: the distinct values, in order of first appearance.\<close>

definition pd_unique :: "cell list \<Rightarrow> cell list" where
  "pd_unique col = rev (remdups (rev col))"

text \<open>\<open>data[attribute] == group\<close>: the boolean mask of the rows whose value is the group.\<close>

definition eq_mask :: "cell list \<Rightarrow> cell \<Rightarrow> bool list" where
  "eq_mask col g = map (\<lambda>v. v = g) col"

text \<open>
  \<open>predictions[group_mask]\<close>: boolean-mask indexing of a numpy array; \<open>IndexError\<close> when
  the mask and the array differ in length.
\<close>

definition mask_select :: "rat list \<Rightarrow> bool list \<Rightarrow> py_exception + rat list" where
  "mask_select preds bmask =
     (if length bmask \<noteq> length preds then Inl IndexError
      else Inr (map fst (filter snd (zip preds bmask))))"

text \<open>
  \<open>a == b\<close> on two numpy arrays: elementwise, a one-element array being broadcast
  against the other; \<open>ValueError\<close> when the shapes cannot be broadcast.
\<close>

definition np_equal :: "rat list \<Rightarrow> rat list \<Rightarrow> py_exception + bool list" where
  "np_equal xs ys =
     (if length xs = length ys then Inr (map (\<lambda>(x, y). x = y) (zip xs ys))
      else if length xs = 1 then Inr (map (\<lambda>y. hd xs = y) ys)
      else if length ys = 1 then Inr (map (\<lambda>x. x = hd ys) xs)
      else Inl ValueError)"

text \<open>\<open>np.mean\<close> of a boolean array counts \<open>True\<close> as 1 and \<open>False\<close> as 0.\<close>

definition np_mean_bool :: "bool list \<Rightarrow> pyfloat" where
  "np_mean_bool bs = np_mean (map (\<lambda>b. if b then 1 else 0) bs)"

text \<open>
  \<open>np.random.normal(loc, scale, shape)\<close> fills an array of the given shape with
  \<open>loc + scale * z\<close>, one standard-normal draw \<open>z\<close> per entry. The draws of one call are
  the parameter \<open>z\<close>, indexed by row and column.
\<close>

definition np_random_normal :: "rat \<Rightarrow> rat \<Rightarrow> (nat \<Rightarrow> nat \<Rightarrow> rat) \<Rightarrow> nat \<Rightarrow> nat \<Rightarrow> rat" where
  "np_random_normal loc scale z = (\<lambda>i j. loc + scale * z i j)"

text \<open>
  Adding a float array to a data frame adds entry \<open>(i, j)\<close> of the array to the cell in
  row \<open>i\<close> of column \<open>j\<close>; adding a float to a string raises \<open>TypeError\<close>.
\<close>

definition add_cell :: "cell \<Rightarrow> rat \<Rightarrow> py_exception + cell" where
  "add_cell c r = (case c of Num x \<Rightarrow> Inr (Num (x + r)) | Str s \<Rightarrow> Inl TypeError)"

fun add_column :: "(nat \<Rightarrow> rat) \<Rightarrow> nat \<Rightarrow> cell list \<Rightarrow> py_exception + cell list" where
  "add_column f i [] = Inr []"
| "add_column f i (c # cs) =
     then_exn (add_cell c (f i)) (\<lambda>c'.
     then_exn (add_column f (Suc i) cs) (\<lambda>cs'. Inr (c' # cs')))"

fun add_columns ::
  "(nat \<Rightarrow> nat \<Rightarrow> rat) \<Rightarrow> nat \<Rightarrow> (string \<times> cell list) list
     \<Rightarrow> py_exception + (string \<times> cell list) list" where
  "add_columns arr j [] = Inr []"
| "add_columns arr j (nc # rest) =
     then_exn (add_column (\<lambda>i. arr i j) 0 (snd nc)) (\<lambda>col'.
     then_exn (add_columns arr (Suc j) rest) (\<lambda>rest'. Inr ((fst nc, col') # rest')))"

definition df_add :: "dataframe \<Rightarrow> (nat \<Rightarrow> nat \<Rightarrow> rat) \<Rightarrow> py_exception + dataframe" where
  "df_add d arr = then_exn (add_columns arr 0 (columns d)) (\<lambda>cs. Inr (d\<lparr>columns := cs\<rparr>))"

section \<open>The class and its methods\<close>

text \<open>The methods that the class body defines, in the order of the source.\<close>

definition class_methods :: "string list" where
  "class_methods =
     [''__init__'', ''assess_fairness'', ''_calculate_demographic_parity'',
      ''assess_transparency'', ''_check_model_architecture_disclosure'',
      ''assess_privacy'', ''_check_data_minimization'', ''assess_robustness'',
      ''_check_adversarial_robustness'', ''evaluate'']"

text \<open>
  \<open>self\<close> is an instance of the class itself. A call \<open>self.name(...)\<close> of a method that
  the class does not define raises \<open>AttributeError\<close> when the attribute is looked up, before
  any body runs; the arguments at the call sites below are plain variables.
\<close>

definition call_undefined :: "string \<Rightarrow> py_exception + 'a" where
  "call_undefined name = Inl (AttributeError name)"

subsection \<open>\<open>_calculate_demographic_parity\<close>\<close>

text \<open>The inner loop: one acceptance rate per group of the attribute.\<close>

fun group_rates_loop ::
  "rat list \<Rightarrow> cell list \<Rightarrow> cell list \<Rightarrow> (cell \<times> pyfloat) list
     \<Rightarrow> py_exception + (cell \<times> pyfloat) list" where
  "group_rates_loop preds col [] rates = Inr rates"
| "group_rates_loop preds col (g # gs) rates =
     (let group_mask = eq_mask col g in
      then_exn (mask_select preds group_mask) (\<lambda>sel.
      let group_acceptance_rate = np_mean sel in
      group_rates_loop preds col gs (rates @ [(g, group_acceptance_rate)])))"

text \<open>The body of the outer loop for one attribute: the score stored for it.\<close>

definition attribute_score :: "dataframe \<Rightarrow> rat list \<Rightarrow> string \<Rightarrow> py_exception + pyfloat" where
  "attribute_score data preds attribute =
     then_exn (getitem data attribute) (\<lambda>col.
     then_exn (group_rates_loop preds col (pd_unique col) []) (\<lambda>group_acceptance_rates.
     then_exn (py_max (map snd group_acceptance_rates)) (\<lambda>mx.
     then_exn (py_min (map snd group_acceptance_rates)) (\<lambda>mn.
     let max_diff = fsub mx mn in
     Inr (fsub (Fin 1) max_diff)))))"

fun demographic_parity_loop ::
  "dataframe \<Rightarrow> rat list \<Rightarrow> string list \<Rightarrow> (string \<rightharpoonup> pyfloat)
     \<Rightarrow> py_exception + (string \<rightharpoonup> pyfloat)" where
  "demographic_parity_loop data preds [] dp = Inr dp"
| "demographic_parity_loop data preds (attribute # rest) dp =
     then_exn (attribute_score data preds attribute) (\<lambda>s.
     demographic_parity_loop data preds rest (dp(attribute \<mapsto> s)))"

definition calculate_demographic_parity ::
  "model \<Rightarrow> dataframe \<Rightarrow> string list \<Rightarrow> py_exception + (string \<rightharpoonup> pyfloat)" where
  "calculate_demographic_parity m data sensitive_attributes =
     then_exn (predict m data) (\<lambda>predictions.
     let overall_acceptance_rate = np_mean predictions in
     demographic_parity_loop data predictions sensitive_attributes Map.empty)"

subsection \<open>\<open>assess_fairness\<close>\<close>

datatype fairness_metrics = Fairness_Metrics
  (demographic_parity: "string \<rightharpoonup> pyfloat")
  (equal_opportunity: "string \<rightharpoonup> pyfloat")
  (disparate_impact: "string \<rightharpoonup> pyfloat")

definition assess_fairness ::
  "model \<Rightarrow> dataframe \<Rightarrow> string list \<Rightarrow> py_exception + fairness_metrics" where
  "assess_fairness m data sensitive_attributes =
     then_exn (calculate_demographic_parity m data sensitive_attributes) (\<lambda>dp.
     then_exn (call_undefined ''_calculate_equal_opportunity'') (\<lambda>eo.
     then_exn (call_undefined ''_calculate_disparate_impact'') (\<lambda>di.
     Inr (Fairness_Metrics dp eo di))))"

subsection \<open>\<open>_check_adversarial_robustness\<close> and \<open>assess_robustness\<close>\<close>

text \<open>
  Line 181, \<open>test_data + np.random.normal(0, epsilon, test_data.shape)\<close>, as a function of
  \<open>epsilon\<close> and of the draws of the random source.
\<close>

definition perturb :: "rat \<Rightarrow> (nat \<Rightarrow> nat \<Rightarrow> rat) \<Rightarrow> dataframe \<Rightarrow> py_exception + dataframe" where
  "perturb epsilon z test_data = df_add test_data (np_random_normal 0 epsilon z)"

definition check_adversarial_robustness ::
  "model \<Rightarrow> dataframe \<Rightarrow> (nat \<Rightarrow> nat \<Rightarrow> rat) \<Rightarrow> py_exception + pyfloat" where
  "check_adversarial_robustness m test_data z =
     (let epsilon = 1 / 10 in
      then_exn (perturb epsilon z test_data) (\<lambda>perturbed_data.
      then_exn (predict m test_data) (\<lambda>original_predictions.
      then_exn (predict m perturbed_data) (\<lambda>perturbed_predictions.
      then_exn (np_equal original_predictions perturbed_predictions) (\<lambda>agree.
      let robustness_score = np_mean_bool agree in
      Inr robustness_score)))))"

text \<open>\<open>sum(checklist)\<close> starts from the integer 0 and adds the items in order.\<close>

definition py_sum :: "pyfloat list \<Rightarrow> pyfloat" where
  "py_sum xs = fold (\<lambda>x acc. fadd acc x) xs (Fin 0)"

definition assess_robustness ::
  "model \<Rightarrow> dataframe \<Rightarrow> (nat \<Rightarrow> nat \<Rightarrow> rat) \<Rightarrow> py_exception + pyfloat" where
  "assess_robustness m test_data z =
     then_exn (check_adversarial_robustness m test_data z) (\<lambda>adv.
     then_exn (call_undefined ''_check_out_of_distribution_performance'') (\<lambda>ood.
     then_exn (call_undefined ''_check_stability_under_data_perturbations'') (\<lambda>stab.
     let checklist = [adv, ood, stab] in
     let robustness_score = fdiv_count (py_sum checklist) (length checklist) in
     Inr robustness_score)))"

subsection \<open>\<open>__init__\<close>\<close>

text \<open>
  The constructor builds the dictionary of principles by looking up seven bound methods on
  \<open>self\<close>, in the order of the dictionary literal. A name that the class does not define
  raises \<open>AttributeError\<close> at its lookup.
\<close>

definition getattr_self :: "string \<Rightarrow> py_exception + string" where
  "getattr_self name =
     (if name \<in> set class_methods then Inr name else Inl (AttributeError name))"

fun getattr_all :: "string list \<Rightarrow> py_exception + string list" where
  "getattr_all [] = Inr []"
| "getattr_all (n # ns) =
     then_exn (getattr_self n) (\<lambda>f. then_exn (getattr_all ns) (\<lambda>fs. Inr (f # fs)))"

definition init_principles :: "py_exception + string list" where
  "init_principles =
     getattr_all [''assess_fairness'', ''assess_transparency'', ''assess_accountability'',
       ''assess_privacy'', ''assess_safety'', ''assess_robustness'', ''assess_explainability'']"

section \<open>Notions used to state the properties\<close>

text \<open>
  The indices of the records of a group, the acceptance rate of a group as the mean of the
  predictions at those indices, and the score \<open>1 - (max - min)\<close> over the rates of the
  distinct groups. These follow the wording of the specification and are compared with
  what the code computes.
\<close>

definition group_indices :: "cell list \<Rightarrow> cell \<Rightarrow> nat list" where
  "group_indices col g = filter (\<lambda>i. col ! i = g) [0..<length col]"

definition group_acceptance_rate :: "rat list \<Rightarrow> cell list \<Rightarrow> cell \<Rightarrow> rat" where
  "group_acceptance_rate preds col g =
     (let idx = group_indices col g in sum_list (map (\<lambda>i. preds ! i) idx) / of_nat (length idx))"





definition raises_attribute_error :: "py_exception + 'a \<Rightarrow> bool" where
  "raises_attribute_error r = (case r of Inl (AttributeError n) \<Rightarrow> True | _ \<Rightarrow> False)"

text \<open>
A frame all of whose cells are numbers, and one field of the perturbed frame.
\<close>

fun is_num :: "cell \<Rightarrow> bool" where
  "is_num (Num x) = True"
| "is_num (Str s) = False"

definition numeric_frame :: "dataframe \<Rightarrow> bool" where
  "numeric_frame d = list_all (\<lambda>c. list_all is_num (snd c)) (columns d)"

definition perturbed_field ::
  "rat \<Rightarrow> (nat \<Rightarrow> nat \<Rightarrow> rat) \<Rightarrow> dataframe \<Rightarrow> string \<Rightarrow> py_exception + cell list" where
  "perturbed_field epsilon z d a = then_exn (perturb epsilon z d) (\<lambda>d'. getitem d' a)"

section \<open>Example inputs\<close>


definition region_data :: dataframe where
  "region_data = \<lparr>n_rows = 4, columns = [(''region'', [Str ''A'', Str ''A'', Str ''B'', Str ''B''])]\<rparr>"


definition feature_data :: dataframe where
  "feature_data = \<lparr>n_rows = 2, columns = [(''x'', [Num 1, Num 2])]\<rparr>"

definition coded_data :: dataframe where
  "coded_data = \<lparr>n_rows = 2, columns = [(''income'', [Num 10, Num 20]), (''gender'', [Num 0, Num 1])]\<rparr>"

definition coded_data_perturbed :: dataframe where
  "coded_data_perturbed =
     \<lparr>n_rows = 2, columns = [(''income'', [Num (101 / 10), Num (201 / 10)]),
                             (''gender'', [Num (1 / 10), Num (11 / 10)])]\<rparr>"

definition empty_data :: dataframe where
  "empty_data = \<lparr>n_rows = 0, columns = [(''income'', [])]\<rparr>"

definition fixed_model :: "rat list \<Rightarrow> model" where
  "fixed_model ps = Model (\<lambda>d. Inr ps)"

definition constant_model :: "rat \<Rightarrow> model" where
  "constant_model c = Model (\<lambda>d. Inr (replicate (n_rows d) c))"

definition failing_model :: "py_exception \<Rightarrow> model" where
  "failing_model e = Model (\<lambda>d. Inl e)"

definition unit_draws :: "nat \<Rightarrow> nat \<Rightarrow> rat" where
  "unit_draws i j = 1"

section \<open>Basic facts\<close>

lemma then_exn_simps [simp]:
  "then_exn (Inl e) f = Inl e" "then_exn (Inr x) f = f x"
  by (simp_all add: then_exn_def)

lemma then_exn_Inr_iff:
  "then_exn m f = Inr y \<longleftrightarrow> (\<exists>x. m = Inr x \<and> f x = Inr y)"
  by (cases m) simp_all

lemma then_exn_Inl_iff:
  "then_exn m f = Inl e \<longleftrightarrow> m = Inl e \<or> (\<exists>x. m = Inr x \<and> f x = Inl e)"
  by (cases m) simp_all

lemma helpers_undefined:
  "''_calculate_equal_opportunity'' \<notin> set class_methods"
  "''_calculate_disparate_impact'' \<notin> set class_methods"
  "''_check_out_of_distribution_performance'' \<notin> set class_methods"
  "''_check_stability_under_data_perturbations'' \<notin> set class_methods"
  by (simp_all add: class_methods_def)

text \<open>
The constructor itself fails at the first principle whose method is missing.
\<close>

lemma init_principles_raises:
  "init_principles = Inl (AttributeError ''assess_accountability'')"
  by (simp add: init_principles_def getattr_self_def class_methods_def)

lemma assess_fairness_cases:
  "assess_fairness m data attrs =
     (case calculate_demographic_parity m data attrs of
        Inl e \<Rightarrow> Inl e
      | Inr dp \<Rightarrow> Inl (AttributeError ''_calculate_equal_opportunity''))"
  by (simp add: assess_fairness_def call_undefined_def split: sum.split)

lemma assess_robustness_cases:
  "assess_robustness m d z =
     (case check_adversarial_robustness m d z of
        Inl e \<Rightarrow> Inl e
      | Inr s \<Rightarrow> Inl (AttributeError ''_check_out_of_distribution_performance''))"
  by (simp add: assess_robustness_def call_undefined_def split: sum.split)

subsection \<open>Mask selection and group rates\<close>







subsection \<open>\<open>max\<close> and \<open>min\<close> on finite rates\<close>






subsection \<open>The score of one attribute and the outer loop\<close>






subsection \<open>Bounds\<close>





subsection \<open>Exceptions of the parity computation\<close>

lemma group_rates_loop_errors:
  "group_rates_loop preds col gs rates = Inl e \<Longrightarrow> e = IndexError"
  by (induction gs arbitrary: rates)
     (auto simp: mask_select_def Let_def then_exn_Inl_iff split: if_splits)

lemma py_max_errors: "py_max xs = Inl e \<Longrightarrow> e = ValueError"
  by (cases xs) simp_all

lemma py_min_errors: "py_min xs = Inl e \<Longrightarrow> e = ValueError"
  by (cases xs) simp_all

lemma attribute_score_errors:
  "attribute_score data preds a = Inl e \<Longrightarrow> e = KeyError a \<or> e = IndexError \<or> e = ValueError"
  by (auto simp: attribute_score_def getitem_def then_exn_Inl_iff Let_def
      dest: group_rates_loop_errors py_max_errors py_min_errors split: option.splits)

lemma attribute_score_missing:
  "map_of (columns data) a = None \<Longrightarrow> attribute_score data preds a = Inl (KeyError a)"
  by (simp add: attribute_score_def getitem_def)

lemma demographic_parity_loop_missing:
  "a \<in> set attrs \<Longrightarrow> map_of (columns data) a = None \<Longrightarrow>
   \<exists>e. demographic_parity_loop data preds attrs dp = Inl e \<and> e \<noteq> SchemaError"
proof (induction attrs arbitrary: dp)
  case Nil
  then show ?case by simp
next
  case (Cons b attrs)
  show ?case
  proof (cases "attribute_score data preds b")
    case (Inl e)
    from attribute_score_errors [OF Inl] have "e \<noteq> SchemaError"
      by (auto simp: SchemaError_def)
    with Inl show ?thesis by simp
  next
    case (Inr s)
    with Cons.prems attribute_score_missing [of data b preds] have "a \<in> set attrs" by auto
    from Cons.IH [OF this Cons.prems(2)] Inr show ?thesis by simp
  qed
qed

subsection \<open>Adding an array to a frame\<close>

lemma add_cell_Inr:
  "add_cell c r = Inr c' \<longleftrightarrow> (\<exists>x. c = Num x \<and> c' = Num (x + r))"
  by (cases c) (auto simp: add_cell_def)

lemma add_column_Inr:
  "add_column f i col = Inr col' \<Longrightarrow>
   length col' = length col \<and>
   (\<forall>k<length col. \<exists>x. col ! k = Num x \<and> col' ! k = Num (x + f (i + k)))"
proof (induction col arbitrary: i col')
  case Nil
  then show ?case by simp
next
  case (Cons c cs)
  from Cons.prems obtain c' cs' where
    c': "add_cell c (f i) = Inr c'" and cs': "add_column f (Suc i) cs = Inr cs'"
    and col': "col' = c' # cs'"
    by (auto simp: then_exn_Inr_iff)
  from Cons.IH [OF cs'] have len: "length cs' = length cs"
    and ih: "\<And>k. k < length cs \<Longrightarrow> \<exists>x. cs ! k = Num x \<and> cs' ! k = Num (x + f (Suc i + k))"
    by auto
  show ?case
  proof (intro conjI allI impI)
    show "length col' = length (c # cs)" using len col' by simp
  next
    fix k assume "k < length (c # cs)"
    then show "\<exists>x. (c # cs) ! k = Num x \<and> col' ! k = Num (x + f (i + k))"
      using c' ih col' by (cases k) (auto simp: add_cell_Inr)
  qed
qed

lemma add_columns_Inr:
  "add_columns arr j cs = Inr cs' \<Longrightarrow>
   map fst cs' = map fst cs \<and>
   (\<forall>k<length cs. add_column (\<lambda>i. arr i (j + k)) 0 (snd (cs ! k)) = Inr (snd (cs' ! k)))"
proof (induction cs arbitrary: j cs')
  case Nil
  then show ?case by simp
next
  case (Cons nc rest)
  from Cons.prems obtain col' rest' where
    col': "add_column (\<lambda>i. arr i j) 0 (snd nc) = Inr col'"
    and rest': "add_columns arr (Suc j) rest = Inr rest'"
    and cs': "cs' = (fst nc, col') # rest'"
    by (auto simp: then_exn_Inr_iff)
  from Cons.IH [OF rest'] have names: "map fst rest' = map fst rest"
    and ih: "\<And>k. k < length rest \<Longrightarrow>
       add_column (\<lambda>i. arr i (Suc j + k)) 0 (snd (rest ! k)) = Inr (snd (rest' ! k))"
    by auto
  show ?case
  proof (intro conjI allI impI)
    show "map fst cs' = map fst (nc # rest)" using names cs' by simp
  next
    fix k assume "k < length (nc # rest)"
    then show "add_column (\<lambda>i. arr i (j + k)) 0 (snd ((nc # rest) ! k)) = Inr (snd (cs' ! k))"
      using col' ih cs' by (cases k) auto
  qed
qed

lemma add_column_numeric:
  "list_all is_num col \<Longrightarrow> \<exists>col'. add_column f i col = Inr col'"
proof (induction col arbitrary: i)
  case Nil
  then show ?case by simp
next
  case (Cons c cs)
  then obtain x where "c = Num x" by (cases c) auto
  moreover from Cons obtain cs' where "add_column f (Suc i) cs = Inr cs'" by auto
  ultimately show ?case by (simp add: add_cell_def)
qed

lemma add_column_not_numeric:
  "\<not> list_all is_num col \<Longrightarrow> add_column f i col = Inl TypeError"
proof (induction col arbitrary: i)
  case Nil
  then show ?case by simp
next
  case (Cons c cs)
  show ?case
  proof (cases c)
    case (Num x)
    with Cons.prems have "\<not> list_all is_num cs" by simp
    from Cons.IH [OF this] Num show ?thesis by (simp add: add_cell_def)
  next
    case (Str s)
    then show ?thesis by (simp add: add_cell_def)
  qed
qed

lemma add_columns_not_numeric:
  "\<not> list_all (\<lambda>c. list_all is_num (snd c)) cs \<Longrightarrow> add_columns arr j cs = Inl TypeError"
proof (induction cs arbitrary: j)
  case Nil
  then show ?case by simp
next
  case (Cons nc rest)
  show ?case
  proof (cases "list_all is_num (snd nc)")
    case True
    then obtain col' where col': "add_column (\<lambda>i. arr i j) 0 (snd nc) = Inr col'"
      using add_column_numeric by blast
    from True Cons.prems have "\<not> list_all (\<lambda>c. list_all is_num (snd c)) rest" by simp
    from Cons.IH [OF this] col' show ?thesis by simp
  next
    case False
    then show ?thesis by (simp add: add_column_not_numeric)
  qed
qed

lemma add_columns_numeric:
  "list_all (\<lambda>c. list_all is_num (snd c)) cs \<Longrightarrow> \<exists>cs'. add_columns arr j cs = Inr cs'"
proof (induction cs arbitrary: j)
  case Nil
  then show ?case by simp
next
  case (Cons nc rest)
  from Cons.prems have "list_all is_num (snd nc)" by simp
  from add_column_numeric [OF this, of "\<lambda>i. arr i j" 0]
  obtain col' where col': "add_column (\<lambda>i. arr i j) 0 (snd nc) = Inr col'" by blast
  from Cons.prems have "list_all (\<lambda>c. list_all is_num (snd c)) rest" by simp
  from Cons.IH [OF this, of "Suc j"]
  obtain rest' where "add_columns arr (Suc j) rest = Inr rest'" by blast
  with col' show ?case by simp
qed

lemma perturb_not_numeric:
  "\<not> numeric_frame d \<Longrightarrow> perturb epsilon z d = Inl TypeError"
  by (simp add: perturb_def df_add_def numeric_frame_def add_columns_not_numeric)

lemma perturb_Inr:
  assumes "perturb epsilon z d = Inr d'"
  shows "n_rows d' = n_rows d" and "map fst (columns d') = map fst (columns d)"
    and "\<And>j. j < length (columns d) \<Longrightarrow>
          add_column (\<lambda>i. epsilon * z i j) 0 (snd (columns d ! j)) = Inr (snd (columns d' ! j))"
proof -
  from assms obtain cs where cs: "add_columns (np_random_normal 0 epsilon z) 0 (columns d) = Inr cs"
    and d': "d' = d\<lparr>columns := cs\<rparr>"
    by (auto simp: perturb_def df_add_def then_exn_Inr_iff)
  show "n_rows d' = n_rows d" using d' by simp
  from add_columns_Inr [OF cs] d'
  show "map fst (columns d') = map fst (columns d)" by simp
  fix j assume "j < length (columns d)"
  with add_columns_Inr [OF cs] d'
  show "add_column (\<lambda>i. epsilon * z i j) 0 (snd (columns d ! j)) = Inr (snd (columns d' ! j))"
    by (simp add: np_random_normal_def)
qed

lemma perturb_numeric:
  assumes "numeric_frame d"
  shows "\<exists>d'. perturb epsilon z d = Inr d' \<and> n_rows d' = n_rows d"
proof -
  from assms add_columns_numeric [of "columns d" "np_random_normal 0 epsilon z" 0]
  obtain cs where "add_columns (np_random_normal 0 epsilon z) 0 (columns d) = Inr cs"
    by (auto simp: numeric_frame_def)
  then show ?thesis by (simp add: perturb_def df_add_def)
qed

lemma np_equal_replicate: "np_equal (replicate n c) (replicate n c) = Inr (replicate n True)"
  by (simp add: np_equal_def zip_replicate)

lemma np_mean_bool_all_true: "0 < n \<Longrightarrow> np_mean_bool (replicate n True) = Fin 1"
  by (simp add: np_mean_bool_def np_mean_def sum_list_replicate)

subsection \<open>The example inputs evaluated\<close>




lemma region_parity_ok:
  "\<not> isl (calculate_demographic_parity (fixed_model [1, 1, 0, 0]) region_data [''region''])"
  by (simp add: calculate_demographic_parity_def fixed_model_def
      region_data_def attribute_score_def getitem_def pd_unique_def eq_mask_def
      mask_select_def np_mean_def)

lemma gender_parity_fails:
  "calculate_demographic_parity (fixed_model [1, 1, 0, 0]) region_data [''gender'']
     = Inl (KeyError ''gender'')"
  by (simp add: calculate_demographic_parity_def fixed_model_def region_data_def
      attribute_score_def getitem_def)

lemma feature_robustness_ok:
  "check_adversarial_robustness (constant_model 1) feature_data unit_draws = Inr (Fin 1)"
  by (simp add: check_adversarial_robustness_def constant_model_def
      feature_data_def perturb_def df_add_def np_random_normal_def add_cell_def np_equal_def
      np_mean_bool_def np_mean_def sum_list_replicate)

lemma region_robustness_fails:
  "check_adversarial_robustness (constant_model 1) region_data unit_draws = Inl TypeError"
  by (simp add: check_adversarial_robustness_def constant_model_def
      region_data_def perturb_def df_add_def np_random_normal_def add_cell_def)

lemma perturb_coded_data:
  "perturb (1 / 10) unit_draws coded_data = Inr coded_data_perturbed"
  by (simp add: perturb_def df_add_def coded_data_def coded_data_perturbed_def
      np_random_normal_def unit_draws_def add_cell_def)

section \<open>Demographic parity\<close>







text \<open>
  C5, as amended. When the attribute is not a column of the frame and \<open>predict\<close> has
  returned, the computation fails with the \<open>KeyError\<close> of the column lookup: it names the
  attribute when that is the first of the list, and in any position the call raises and
  the exception is not \<open>SchemaError\<close>. The lookup happens inside the loop, after the call
  of \<open>predict\<close>: an exception of \<open>predict\<close> is raised instead.
\<close>

theorem missing_attribute_key_error:
  "(predict m data = Inr preds \<and> map_of (columns data) a = None \<longrightarrow>
      calculate_demographic_parity m data (a # rest) = Inl (KeyError a))
   \<and> (predict m data = Inr preds \<and> map_of (columns data) a = None \<and> a \<in> set attrs \<longrightarrow>
      isl (calculate_demographic_parity m data attrs)
      \<and> calculate_demographic_parity m data attrs \<noteq> Inl SchemaError)
   \<and> (predict m data = Inl e \<longrightarrow> calculate_demographic_parity m data attrs = Inl e)"
proof (intro conjI impI)
  assume "predict m data = Inr preds \<and> map_of (columns data) a = None"
  then show "calculate_demographic_parity m data (a # rest) = Inl (KeyError a)"
    by (simp add: calculate_demographic_parity_def attribute_score_missing)
next
  assume h: "predict m data = Inr preds \<and> map_of (columns data) a = None \<and> a \<in> set attrs"
  then obtain e' where e': "demographic_parity_loop data preds attrs Map.empty = Inl e'" "e' \<noteq> SchemaError"
    using demographic_parity_loop_missing by blast
  with h show "isl (calculate_demographic_parity m data attrs)"
    by (simp add: calculate_demographic_parity_def)
  from e' h show "calculate_demographic_parity m data attrs \<noteq> Inl SchemaError"
    by (simp add: calculate_demographic_parity_def)
next
  assume "predict m data = Inl e"
  then show "calculate_demographic_parity m data attrs = Inl e"
    by (simp add: calculate_demographic_parity_def)
qed

theorem missing_attribute_key_error_witness:
  "calculate_demographic_parity (fixed_model [1, 1, 0, 0]) region_data [''gender'', ''region'']
     = Inl (KeyError ''gender'')
   \<and> isl (calculate_demographic_parity (fixed_model [1, 1, 0, 0]) region_data [''region'', ''gender''])
   \<and> calculate_demographic_parity (fixed_model [1, 1, 0, 0]) region_data [''region'', ''gender'']
       \<noteq> Inl SchemaError
   \<and> calculate_demographic_parity (failing_model (Other ''NotFittedError'')) region_data [''gender'']
       = Inl (Other ''NotFittedError'')"
  using missing_attribute_key_error [of "fixed_model [1, 1, 0, 0]" region_data "[1, 1, 0, 0]"
      "''gender''" "[''region'']" "[''region'', ''gender'']" "ValueError"]
    missing_attribute_key_error [of "failing_model (Other ''NotFittedError'')" region_data "[]"
      "''gender''" "[]" "[''gender'']" "Other ''NotFittedError''"]
  by (simp add: fixed_model_def failing_model_def region_data_def)

text \<open>
C5 as stated fails: the exception for a missing attribute is \<open>KeyError\<close>.
\<close>

theorem missing_attribute_counterexample:
  "calculate_demographic_parity (fixed_model [1, 1, 0, 0]) region_data [''gender'']
     = Inl (KeyError ''gender'')
   \<and> calculate_demographic_parity (fixed_model [1, 1, 0, 0]) region_data [''gender'']
     \<noteq> Inl SchemaError"
  by (simp add: calculate_demographic_parity_def fixed_model_def region_data_def
      attribute_score_def getitem_def SchemaError_def)

section \<open>The assessments that call undefined helpers\<close>

text \<open>
  C2, as amended. Neither \<open>assess_fairness\<close> nor \<open>assess_robustness\<close> ever returns. When
  the first helper (\<open>_calculate_demographic_parity\<close>, \<open>_check_adversarial_robustness\<close>)
  returns, the exception is the \<open>AttributeError\<close> of the first helper that the class does
  not define; when the first helper raises, its exception propagates instead. None of the
  four helpers named is a method of the class.
\<close>

theorem assessments_never_return:
  "isl (assess_fairness m data attrs)
   \<and> isl (assess_robustness m' test_data z)
   \<and> (\<not> isl (calculate_demographic_parity m data attrs) \<longrightarrow>
        assess_fairness m data attrs = Inl (AttributeError ''_calculate_equal_opportunity''))
   \<and> (\<not> isl (check_adversarial_robustness m' test_data z) \<longrightarrow>
        assess_robustness m' test_data z =
          Inl (AttributeError ''_check_out_of_distribution_performance''))
   \<and> (isl (calculate_demographic_parity m data attrs) \<longrightarrow>
        assess_fairness m data attrs = Inl (projl (calculate_demographic_parity m data attrs)))
   \<and> (isl (check_adversarial_robustness m' test_data z) \<longrightarrow>
        assess_robustness m' test_data z = Inl (projl (check_adversarial_robustness m' test_data z)))
   \<and> ''_calculate_equal_opportunity'' \<notin> set class_methods
   \<and> ''_calculate_disparate_impact'' \<notin> set class_methods
   \<and> ''_check_out_of_distribution_performance'' \<notin> set class_methods
   \<and> ''_check_stability_under_data_perturbations'' \<notin> set class_methods"
proof -
  have f: "isl (assess_fairness m data attrs)"
    and f1: "\<not> isl (calculate_demographic_parity m data attrs) \<longrightarrow>
        assess_fairness m data attrs = Inl (AttributeError ''_calculate_equal_opportunity'')"
    and f2: "isl (calculate_demographic_parity m data attrs) \<longrightarrow>
        assess_fairness m data attrs = Inl (projl (calculate_demographic_parity m data attrs))"
    by (cases "calculate_demographic_parity m data attrs"; simp add: assess_fairness_cases)+
  have r: "isl (assess_robustness m' test_data z)"
    and r1: "\<not> isl (check_adversarial_robustness m' test_data z) \<longrightarrow>
        assess_robustness m' test_data z =
          Inl (AttributeError ''_check_out_of_distribution_performance'')"
    and r2: "isl (check_adversarial_robustness m' test_data z) \<longrightarrow>
        assess_robustness m' test_data z = Inl (projl (check_adversarial_robustness m' test_data z))"
    by (cases "check_adversarial_robustness m' test_data z"; simp add: assess_robustness_cases)+
  from f f1 f2 r r1 r2 helpers_undefined show ?thesis by blast
qed

theorem assessments_never_return_witness:
  "assess_fairness (fixed_model [1, 1, 0, 0]) region_data [''region'']
     = Inl (AttributeError ''_calculate_equal_opportunity'')
   \<and> assess_robustness (constant_model 1) feature_data unit_draws
     = Inl (AttributeError ''_check_out_of_distribution_performance'')
   \<and> assess_fairness (fixed_model [1, 1, 0, 0]) region_data [''gender'']
     = Inl (KeyError ''gender'')
   \<and> assess_robustness (constant_model 1) region_data unit_draws = Inl TypeError"
  using assessments_never_return [of "fixed_model [1, 1, 0, 0]" region_data "[''region'']"
      "constant_model 1" feature_data unit_draws]
    assessments_never_return [of "fixed_model [1, 1, 0, 0]" region_data "[''gender'']"
      "constant_model 1" region_data unit_draws]
  by (simp add: region_parity_ok feature_robustness_ok gender_parity_fails region_robustness_fails)

text \<open>
  C2 as stated fails: with an attribute that is not a column, \<open>assess_fairness\<close> raises
  \<open>KeyError\<close>; on a frame with a string field, \<open>assess_robustness\<close> raises \<open>TypeError\<close>.
\<close>

theorem attribute_error_not_always_counterexample:
  "\<not> raises_attribute_error
       (assess_fairness (fixed_model [1, 1, 0, 0]) region_data [''gender''])
   \<and> \<not> raises_attribute_error (assess_robustness (constant_model 1) region_data unit_draws)"
  by (simp add: assess_fairness_cases assess_robustness_cases gender_parity_fails
      region_robustness_fails raises_attribute_error_def)

text \<open>
  C3. No disparate-impact score is computed: on the end-to-end example \<open>assess_fairness\<close>
  raises \<open>AttributeError\<close> at the first undefined helper, before the call of
  \<open>_calculate_disparate_impact\<close>, which is undefined as well.
\<close>

theorem disparate_impact_never_computed:
  "assess_fairness (fixed_model [1, 1, 0, 0]) region_data [''region''] =
     Inl (AttributeError ''_calculate_equal_opportunity'')"
  by (simp add: assess_fairness_def calculate_demographic_parity_def fixed_model_def
      region_data_def attribute_score_def getitem_def pd_unique_def eq_mask_def
      mask_select_def np_mean_def call_undefined_def)

text \<open>
  C9. No aggregate robustness score is computed: for a constant model on a numeric frame
  the adversarial check returns, and \<open>assess_robustness\<close> then raises \<open>AttributeError\<close>
  at \<open>_check_out_of_distribution_performance\<close>; the mean of the three sub-scores on the
  following line is never reached.
\<close>

theorem robustness_aggregate_never_computed:
  "assess_robustness (constant_model 1) feature_data (\<lambda>i j. 0) =
     Inl (AttributeError ''_check_out_of_distribution_performance'')"
  by (simp add: assess_robustness_def check_adversarial_robustness_def constant_model_def
      feature_data_def perturb_def df_add_def np_random_normal_def add_cell_def np_equal_def
      np_mean_bool_def np_mean_def call_undefined_def)

section \<open>Perturbation and adversarial robustness\<close>

text \<open>
  C6, as amended. When the perturbation returns a frame, that frame has the same number of
  rows, the same field names and the same column lengths, and every cell of every field,
  whatever the field is used for, is a number that has become its old value plus
  \<open>epsilon\<close> times its draw. When some cell is not a number the perturbation raises
  \<open>TypeError\<close> and there is no perturbed frame.
\<close>

theorem perturb_shifts_every_field:
  "(perturb epsilon z d = Inr d' \<longrightarrow>
      n_rows d' = n_rows d \<and> map fst (columns d') = map fst (columns d) \<and>
      (\<forall>j<length (columns d).
         length (snd (columns d' ! j)) = length (snd (columns d ! j)) \<and>
         (\<forall>i<length (snd (columns d ! j)). \<exists>x.
            snd (columns d ! j) ! i = Num x \<and>
            snd (columns d' ! j) ! i = Num (x + epsilon * z i j))))
   \<and> (\<not> numeric_frame d \<longrightarrow> perturb epsilon z d = Inl TypeError)"
proof (intro conjI impI allI)
  assume p: "perturb epsilon z d = Inr d'"
  show "n_rows d' = n_rows d" by (rule perturb_Inr(1) [OF p])
  show "map fst (columns d') = map fst (columns d)" by (rule perturb_Inr(2) [OF p])
  fix j assume j: "j < length (columns d)"
  note col = add_column_Inr [OF perturb_Inr(3) [OF p j]]
  from col show "length (snd (columns d' ! j)) = length (snd (columns d ! j))" by simp
  fix i assume "i < length (snd (columns d ! j))"
  with col show "\<exists>x. snd (columns d ! j) ! i = Num x \<and>
            snd (columns d' ! j) ! i = Num (x + epsilon * z i j)" by simp
next
  assume "\<not> numeric_frame d"
  then show "perturb epsilon z d = Inl TypeError" by (rule perturb_not_numeric)
qed

theorem perturb_shifts_every_field_witness:
  "n_rows coded_data_perturbed = n_rows coded_data
   \<and> snd (columns coded_data_perturbed ! 1) ! 0 = Num (0 + (1 / 10) * unit_draws 0 1)
   \<and> perturb (1 / 10) unit_draws region_data = Inl TypeError"
proof -
  note t = perturb_shifts_every_field [of "1 / 10" unit_draws coded_data coded_data_perturbed]
  note u = perturb_shifts_every_field [of "1 / 10" unit_draws region_data coded_data_perturbed]
  have j: "1 < length (columns coded_data)" and i: "0 < length (snd (columns coded_data ! 1))"
    and c: "snd (columns coded_data ! 1) ! 0 = Num 0"
    by (simp_all add: coded_data_def)
  from t perturb_coded_data j i
  have "\<exists>x. snd (columns coded_data ! 1) ! 0 = Num x \<and>
          snd (columns coded_data_perturbed ! 1) ! 0 = Num (x + (1 / 10) * unit_draws 0 1)"
    by blast
  with c have "snd (columns coded_data_perturbed ! 1) ! 0 = Num (0 + (1 / 10) * unit_draws 0 1)"
    by auto
  moreover have "n_rows coded_data_perturbed = n_rows coded_data"
    using t perturb_coded_data by blast
  moreover have "\<not> numeric_frame region_data"
    by (simp add: numeric_frame_def region_data_def)
  with u have "perturb (1 / 10) unit_draws region_data = Inl TypeError" by blast
  ultimately show ?thesis by blast
qed

text \<open>
  C6 as stated fails: a sensitive attribute coded by numbers is perturbed like any other
  field.
\<close>

theorem sensitive_field_perturbed_counterexample:
  "perturbed_field (1 / 10) unit_draws coded_data ''gender'' = Inr [Num (1 / 10), Num (11 / 10)]
   \<and> getitem coded_data ''gender'' = Inr [Num 0, Num 1]
   \<and> perturbed_field (1 / 10) unit_draws coded_data ''gender'' \<noteq> getitem coded_data ''gender''"
proof -
  have a: "perturbed_field (1 / 10) unit_draws coded_data ''gender'' = Inr [Num (1 / 10), Num (11 / 10)]"
    by (simp add: perturbed_field_def perturb_coded_data getitem_def coded_data_perturbed_def)
  have b: "getitem coded_data ''gender'' = Inr [Num 0, Num 1]"
    by (simp add: getitem_def coded_data_def)
  show ?thesis unfolding a b by simp
qed

text \<open>
  C8, as amended. For a frame with at least one record whose cells are all numbers, any
  draws of the random source and a model that returns the same label for every record,
  \<open>_check_adversarial_robustness\<close> returns exactly 1.
\<close>

theorem constant_model_fully_robust:
  assumes "numeric_frame d" and "0 < n_rows d"
  shows "check_adversarial_robustness (constant_model c) d z = Inr (Fin 1)"
proof -
  from perturb_numeric [OF assms(1)] obtain d' where
    d': "perturb (1 / 10) z d = Inr d'" "n_rows d' = n_rows d" by blast
  then show ?thesis
    using assms(2)
    by (simp add: check_adversarial_robustness_def constant_model_def np_equal_replicate
        np_mean_bool_all_true)
qed

theorem constant_model_fully_robust_witness:
  "check_adversarial_robustness (constant_model 1) coded_data unit_draws = Inr (Fin 1)"
  using constant_model_fully_robust [of coded_data 1 unit_draws]
  by (simp add: numeric_frame_def coded_data_def)

text \<open>
  C8 as stated fails: on a frame without records the score is the \<open>nan\<close> of the mean of
  an empty array, and on a frame with a string field the check raises \<open>TypeError\<close>.
\<close>

theorem constant_model_score_counterexample:
  "check_adversarial_robustness (constant_model 1) empty_data unit_draws = Inr NaN
   \<and> check_adversarial_robustness (constant_model 1) region_data unit_draws = Inl TypeError"
  by (simp add: check_adversarial_robustness_def constant_model_def empty_data_def
      region_data_def perturb_def df_add_def np_random_normal_def add_cell_def np_equal_def
      np_mean_bool_def np_mean_def)

end
